theory Spec2Isabelle
  imports Main "HOL-Library.Multiset" "HOL-Library.Sublist"
begin

section \<open>Hunter-Seeker: the job-application store and the CSV import\<close>

text \<open>
  A shallow embedding of the Go packages \<open>models\<close>, \<open>database\<close> and \<open>handlers\<close>.
  Go strings are byte strings and are modelled as \<open>string\<close>. A \<open>time.Time\<close> is modelled
  by the instant it denotes, an integer counted from Go's zero time, so that the zero
  value \<open>time.Time{}\<close> is \<open>0\<close>. Functions of the Go standard library and the SQL engine
  are not part of the repository: \<open>time.Parse\<close> is a parameter of every function that
  calls it, the CSV reader's result is part of the request, and each SQL statement is
  modelled by what it does to the one table it names.
\<close>

subsection \<open>Errors\<close>

text \<open>
  A Go \<open>error\<close>. \<open>ErrJobNotFound\<close> is the sentinel of package \<open>database\<close>, \<open>ErrNoRows\<close>
  the sentinel \<open>sql.ErrNoRows\<close>, \<open>ErrDriver\<close> an error raised by the SQL driver, and
  \<open>Errorf m w\<close> the result of \<open>fmt.Errorf\<close>: \<open>m\<close> is the formatted text before a final
  \<open>%w\<close> and \<open>w\<close> the error wrapped by it, if any.
\<close>

datatype error = ErrJobNotFound | ErrNoRows | ErrDriver string | Errorf string "error option"

fun Error :: "error \<Rightarrow> string" where
  "Error ErrJobNotFound = ''job application not found''"
| "Error ErrNoRows = ''sql: no rows in result set''"
| "Error (ErrDriver m) = m"
| "Error (Errorf m None) = m"
| "Error (Errorf m (Some e)) = m @ Error e"

text \<open>\<open>errors.Is\<close>: the error itself or one it wraps is the target.\<close>

fun errors_Is :: "error \<Rightarrow> error \<Rightarrow> bool" where
  "errors_Is (Errorf m (Some e)) t = (Errorf m (Some e) = t \<or> errors_Is e t)"
| "errors_Is e t = (e = t)"

subsection \<open>Strings\<close>

text \<open>
  \<open>strings.TrimSpace\<close>, \<open>strings.ToLower\<close> and \<open>strings.Contains\<close> on ASCII text, where
  the white space is tab, line feed, vertical tab, form feed, carriage return and space
  and the upper-case letters are \<open>A\<close> to \<open>Z\<close>. Bytes outside ASCII are left as they are:
  Go also trims the Unicode spaces and maps the Unicode letters among them.
\<close>

definition isSpace :: "char \<Rightarrow> bool" where
  "isSpace c = (c \<in> set [CHR 0x09, CHR 0x0A, CHR 0x0B, CHR 0x0C, CHR 0x0D, CHR '' ''])"

definition TrimSpace :: "string \<Rightarrow> string" where
  "TrimSpace s = rev (dropWhile isSpace (rev (dropWhile isSpace s)))"

definition toLower :: "char \<Rightarrow> char" where
  "toLower c =
     (if 65 \<le> (of_char c :: nat) \<and> (of_char c :: nat) \<le> 90
      then char_of ((of_char c :: nat) + 32) else c)"

definition ToLower :: "string \<Rightarrow> string" where
  "ToLower s = map toLower s"

fun HasPrefix :: "string \<Rightarrow> string \<Rightarrow> bool" where
  "HasPrefix s [] = True"
| "HasPrefix [] (c # sub) = False"
| "HasPrefix (d # s) (c # sub) = (d = c \<and> HasPrefix s sub)"

fun Contains :: "string \<Rightarrow> string \<Rightarrow> bool" where
  "Contains [] sub = HasPrefix [] sub"
| "Contains (d # s) sub = (HasPrefix (d # s) sub \<or> Contains s sub)"

text \<open>The verb \<open>%d\<close> of \<open>fmt\<close> on a number that is not negative.\<close>

fun Itoa :: "nat \<Rightarrow> string" where
  "Itoa n =
     (if n < 10 then [''0123456789'' ! n]
      else Itoa (n div 10) @ [''0123456789'' ! (n mod 10)])"

declare Itoa.simps [simp del]

subsection \<open>The CSV date parser\<close>

type_synonym time = int

text \<open>
  \<open>time.Parse layout value\<close>, as far as the callers look at it: the time it read, or
  \<open>None\<close> when it returned an error.
\<close>

type_synonym time_Parse = "string \<Rightarrow> string \<Rightarrow> time option"

definition formats :: "string list" where
  "formats =
     [''2006-01-02'', ''01/02/2006'', ''1/2/2006'', ''02/01/2006'', ''2/1/2006'',
      ''2006/01/02'', ''2006/1/2'', ''Jan 2, 2006'', ''January 2, 2006'', ''2 Jan 2006'',
      ''2006-1-2'', ''Jan 2 2006'', ''January 2 2006'', ''Feb 2 2006'', ''Feb 20 2006'',
      ''March 2 2006'', ''Apr 2 2006'', ''May 2 2006'', ''Jun 2 2006'', ''Jul 2 2006'',
      ''Aug 2 2006'', ''Sep 2 2006'', ''Oct 2 2006'', ''Nov 2 2006'', ''Dec 2 2006'']"

text \<open>The loop \<open>for _, format := range formats\<close> of \<open>parseDate\<close>.\<close>

fun try_formats :: "time_Parse \<Rightarrow> string list \<Rightarrow> string \<Rightarrow> error + time" where
  "try_formats tp [] dateStr = Inl (Errorf ''unrecognized date format'' None)"
| "try_formats tp (format # rest) dateStr =
     (case tp format dateStr of
        Some date \<Rightarrow> Inr date
      | None \<Rightarrow> try_formats tp rest dateStr)"

definition parseDate :: "time_Parse \<Rightarrow> string \<Rightarrow> error + time" where
  "parseDate tp dateStr =
     (if dateStr = '''' then Inl (Errorf ''date is required'' None)
      else try_formats tp formats dateStr)"

text \<open>
  A \<open>time.Parse\<close> given by a table of the (layout, value) pairs it reads, for concrete
  runs: every other pair is an error.
\<close>

definition parse_table :: "((string \<times> string) \<times> time) list \<Rightarrow> time_Parse" where
  "parse_table tab layout v = map_of tab (layout, v)"

subsection \<open>Package models\<close>

record JobApplication =
  ID :: int
  DateApplied :: time
  JobTitle :: string
  Company :: string
  Status :: string
  JobURL :: string
  Notes :: string
  CreatedAt :: time
  UpdatedAt :: time

definition StatusApplied :: string where
  "StatusApplied = ''Applied''"

subsection \<open>Package database\<close>

text \<open>
  The connection and the database behind it. \<open>table\<close> holds the rows of
  \<open>job_applications\<close> in the order of their row ids, \<open>sequence\<close> is the largest row id
  the table ever gave out (the AUTOINCREMENT counter), \<open>clock\<close> lists the readings of
  CURRENT_TIMESTAMP that the statements still to come will see and \<open>ticks\<close> counts the
  readings taken, and \<open>closed\<close> says that \<open>Close\<close> was called: a closed connection
  refuses every statement. It is the one failure of the driver that the model has. The
  driver never fails in \<open>LastInsertId\<close> or \<open>RowsAffected\<close>, and \<open>Scan\<close> never fails on a
  row, since every column that the INSERT below writes holds a value.
\<close>

record DB =
  table :: "JobApplication list"
  sequence :: int
  clock :: "nat \<Rightarrow> time"
  ticks :: nat
  closed :: bool

record sql_Result =
  LastInsertId :: "error + int"
  RowsAffected :: "error + int"

definition ErrClosed :: error where
  "ErrClosed = ErrDriver ''sql: database is closed''"

definition Close :: "DB \<Rightarrow> DB" where
  "Close db = db\<lparr>closed := True\<rparr>"

text \<open>
  The row id of the next INSERT: one more than the largest row id that is or ever was in
  the table.
\<close>

definition next_rowid :: "DB \<Rightarrow> int" where
  "next_rowid db = fold max (map ID (table db)) (sequence db) + 1"

text \<open>
  \<open>INSERT INTO job_applications (date_applied, job_title, company, status, job_url, notes)
  VALUES (?, ?, ?, ?, ?, ?)\<close>: the six columns are the job's, the id is the next row id
  and both timestamps default to CURRENT_TIMESTAMP.
\<close>

definition exec_insert :: "DB \<Rightarrow> JobApplication \<Rightarrow> error + (DB \<times> sql_Result)" where
  "exec_insert db job =
     (if closed db then Inl ErrClosed
      else
        let rowid = next_rowid db;
            now = clock db (ticks db);
            row = job\<lparr>ID := rowid, CreatedAt := now, UpdatedAt := now\<rparr>
        in Inr (db\<lparr>table := table db @ [row], sequence := rowid, ticks := ticks db + 1\<rparr>,
                \<lparr>LastInsertId = Inr rowid, RowsAffected = Inr 1\<rparr>))"

text \<open>\<open>DELETE FROM job_applications WHERE id = ?\<close>\<close>

definition exec_delete :: "DB \<Rightarrow> int \<Rightarrow> error + (DB \<times> sql_Result)" where
  "exec_delete db jid =
     (if closed db then Inl ErrClosed
      else Inr (db\<lparr>table := filter (\<lambda>row. ID row \<noteq> jid) (table db)\<rparr>,
                \<lparr>LastInsertId = Inr (sequence db),
                 RowsAffected = Inr (int (length (filter (\<lambda>row. ID row = jid) (table db))))\<rparr>))"






text \<open>
  \<open>SELECT status, COUNT(*) as count FROM job_applications GROUP BY status
  ORDER BY count DESC\<close>
\<close>

fun insert_count :: "string \<times> nat \<Rightarrow> (string \<times> nat) list \<Rightarrow> (string \<times> nat) list" where
  "insert_count a [] = [a]"
| "insert_count a (b # bs) = (if snd b \<le> snd a then a # b # bs else b # insert_count a bs)"

definition group_by_status :: "JobApplication list \<Rightarrow> (string \<times> nat) list" where
  "group_by_status rows =
     map (\<lambda>status. (status, length (filter (\<lambda>row. Status row = status) rows)))
       (remdups (map Status rows))"

definition query_status_counts :: "DB \<Rightarrow> error + (string \<times> nat) list" where
  "query_status_counts db =
     (if closed db then Inl ErrClosed
      else Inr (foldr insert_count (group_by_status (table db)) []))"

text \<open>
  The functions of package \<open>database\<close>. A function that writes returns the database
  after it; \<open>CreateJobApplication\<close> also returns the job, whose \<open>ID\<close> it sets.
\<close>

definition CreateJobApplication ::
  "DB \<Rightarrow> JobApplication \<Rightarrow> DB \<times> JobApplication \<times> error option" where
  "CreateJobApplication db job =
     (case exec_insert db job of
        Inl err \<Rightarrow> (db, job, Some (Errorf ''failed to create job application: '' (Some err)))
      | Inr (db', result) \<Rightarrow>
          (case LastInsertId result of
             Inl err \<Rightarrow> (db', job, Some (Errorf ''failed to get last insert id: '' (Some err)))
           | Inr rowid \<Rightarrow> (db', job\<lparr>ID := rowid\<rparr>, None)))"


definition DeleteJobApplication :: "DB \<Rightarrow> int \<Rightarrow> DB \<times> error option" where
  "DeleteJobApplication db jid =
     (case exec_delete db jid of
        Inl err \<Rightarrow> (db, Some (Errorf ''failed to delete job application: '' (Some err)))
      | Inr (db', result) \<Rightarrow>
          (case RowsAffected result of
             Inl err \<Rightarrow> (db', Some (Errorf ''failed to get rows affected: '' (Some err)))
           | Inr rowsAffected \<Rightarrow>
               (if rowsAffected = 0 then (db', Some ErrJobNotFound) else (db', None))))"


definition GetStatusCounts :: "DB \<Rightarrow> error + (string \<rightharpoonup> nat)" where
  "GetStatusCounts db =
     (case query_status_counts db of
        Inl err \<Rightarrow> Inl (Errorf ''failed to query status counts: '' (Some err))
      | Inr rows \<Rightarrow> Inr (fold (\<lambda>(status, count) counts. counts(status \<mapsto> count)) rows Map.empty))"

subsection \<open>Package handlers\<close>

text \<open>
  What a handler reads of an HTTP request: the method, the error of \<open>r.ParseForm\<close> (or
  \<open>r.ParseMultipartForm\<close>) if it fails, the form's fields, and the outcome of
  \<open>r.FormFile("csv_file")\<close>: an error, or the uploaded file, which stands here as what
  \<open>csv.NewReader(file).ReadAll()\<close> returns on it, an error or the records. The reader
  is used as \<open>NewReader\<close> sets it up, so among its errors is a row whose number of fields
  differs from the first row's.
\<close>

record Request =
  Method :: string
  ParseFormErr :: "error option"
  Form :: "(string \<times> string) list"
  FormFile :: "error + (error + string list list)"

definition FormValue :: "Request \<Rightarrow> string \<Rightarrow> string" where
  "FormValue r key = (case map_of (Form r) key of None \<Rightarrow> '''' | Some v \<Rightarrow> v)"

text \<open>The data handed to the template \<open>import_result.html\<close>.\<close>

record ImportData =
  SuccessCount :: nat
  ErrorCount :: nat
  Errors :: "string list"
  TotalRows :: nat

text \<open>
  What a handler answers: \<open>http.Error\<close> with a message and a status code,
  \<open>http.Redirect\<close> with a URL and a status code, or the import's result page, which
  stands for the data that the template is executed with.
\<close>

datatype Response =
  HttpError string nat
| HttpRedirect string nat
| ImportResult ImportData

definition CreateJobHandler :: "time_Parse \<Rightarrow> DB \<Rightarrow> Request \<Rightarrow> Response \<times> DB" where
  "CreateJobHandler tp db r =
     (if Method r \<noteq> ''POST'' then (HttpError ''Method not allowed'' 405, db)
      else if ParseFormErr r \<noteq> None then (HttpError ''Failed to parse form'' 400, db)
      else
        let dateStr = FormValue r ''date_applied'' in
        (case tp ''2006-01-02'' dateStr of
           None \<Rightarrow> (HttpError ''Invalid date format'' 400, db)
         | Some dateApplied \<Rightarrow>
             let job = \<lparr>ID = 0, DateApplied = dateApplied,
                        JobTitle = FormValue r ''job_title'',
                        Company = FormValue r ''company'',
                        Status = FormValue r ''status'',
                        JobURL = FormValue r ''job_url'',
                        Notes = FormValue r ''notes'',
                        CreatedAt = 0, UpdatedAt = 0\<rparr>
             in (case CreateJobApplication db job of
                   (db', job', Some err) \<Rightarrow>
                     (HttpError ''Failed to create job application'' 500, db')
                 | (db', job', None) \<Rightarrow> (HttpRedirect ''/'' 303, db'))))"

definition headerKeywords :: "string list" where
  "headerKeywords = [''date'', ''job'', ''title'', ''company'', ''position'', ''role'']"

text \<open>The loop \<open>for _, keyword := range headerKeywords\<close> of \<open>isHeaderRow\<close>.\<close>

fun any_keyword :: "string \<Rightarrow> string list \<Rightarrow> bool" where
  "any_keyword firstCol [] = False"
| "any_keyword firstCol (keyword # rest) =
     (if Contains firstCol keyword then True else any_keyword firstCol rest)"

definition isHeaderRow :: "string list \<Rightarrow> bool" where
  "isHeaderRow record =
     (if length record = 0 then False
      else
        let firstCol = ToLower (TrimSpace (record ! 0))
        in any_keyword firstCol headerKeywords)"

definition parseCSVRecord :: "time_Parse \<Rightarrow> string list \<Rightarrow> error + JobApplication" where
  "parseCSVRecord tp record =
     (if length record < 3
      then Inl (Errorf
        ''insufficient columns (need at least: date_applied, job_title, company)'' None)
      else
        let dateStr = TrimSpace (record ! 0) in
        case parseDate tp dateStr of
          Inl err \<Rightarrow>
            Inl (Errorf (''invalid date format '' @ [CHR 0x27] @ dateStr @ [CHR 0x27]
                         @ '': '' @ Error err) None)
        | Inr dateApplied \<Rightarrow>
            let jobTitle = TrimSpace (record ! 1) in
            if jobTitle = '''' then Inl (Errorf ''job title is required'' None)
            else
              let company = TrimSpace (record ! 2) in
              if company = '''' then Inl (Errorf ''company is required'' None)
              else
                let job = \<lparr>ID = 0, DateApplied = dateApplied, JobTitle = jobTitle,
                           Company = company, Status = StatusApplied, JobURL = '''',
                           Notes = '''', CreatedAt = 0, UpdatedAt = 0\<rparr>;
                    job = (if length record > 3
                           then (let status = TrimSpace (record ! 3)
                                 in if status \<noteq> '''' then job\<lparr>Status := status\<rparr> else job)
                           else job);
                    job = (if length record > 4
                           then job\<lparr>JobURL := TrimSpace (record ! 4)\<rparr> else job);
                    job = (if length record > 5
                           then job\<lparr>Notes := TrimSpace (record ! 5)\<rparr> else job)
                in Inr job)"

text \<open>
  The state of the loop over the rows in \<open>ProcessCSVHandler\<close>: the database, and the
  variables \<open>successCount\<close>, \<open>errorCount\<close> and \<open>errors\<close>.
\<close>

type_synonym import_state = "DB \<times> nat \<times> nat \<times> string list"

text \<open>The test \<open>// Skip empty rows\<close>.\<close>

definition empty_row :: "string list \<Rightarrow> bool" where
  "empty_row record =
     (length record = 0 \<or> (length record = 1 \<and> TrimSpace (record ! 0) = ''''))"

text \<open>The body of the loop, for the row \<open>record = records[i]\<close>.\<close>

definition import_row :: "time_Parse \<Rightarrow> nat \<Rightarrow> string list \<Rightarrow> import_state \<Rightarrow> import_state" where
  "import_row tp i record st =
     (case st of (db, successCount, errorCount, errors) \<Rightarrow>
        if empty_row record then st
        else
          (case parseCSVRecord tp record of
             Inl err \<Rightarrow>
               (db, successCount, errorCount + 1,
                errors @ [''Row '' @ Itoa (i + 1) @ '': '' @ Error err])
           | Inr job \<Rightarrow>
               (case CreateJobApplication db job of
                  (db', job', Some err) \<Rightarrow>
                    (db', successCount, errorCount + 1,
                     errors @ [''Row '' @ Itoa (i + 1) @ '': Failed to save '' @ JobTitle job'
                               @ '' at '' @ Company job' @ '': '' @ Error err])
                | (db', job', None) \<Rightarrow> (db', successCount + 1, errorCount, errors))))"

text \<open>
  The loop \<open>for i := startIdx; i < len(records); i++\<close>: \<open>rows\<close> are the records from
  index \<open>i\<close> on.
\<close>

fun import_rows :: "time_Parse \<Rightarrow> nat \<Rightarrow> string list list \<Rightarrow> import_state \<Rightarrow> import_state" where
  "import_rows tp i [] st = st"
| "import_rows tp i (record # rows) st = import_rows tp (i + 1) rows (import_row tp i record st)"

definition start_index :: "string list list \<Rightarrow> nat" where
  "start_index records = (if length records > 0 \<and> isHeaderRow (records ! 0) then 1 else 0)"

definition ProcessCSVHandler :: "time_Parse \<Rightarrow> DB \<Rightarrow> Request \<Rightarrow> Response \<times> DB" where
  "ProcessCSVHandler tp db r =
     (if Method r \<noteq> ''POST'' then (HttpError ''Method not allowed'' 405, db)
      else if ParseFormErr r \<noteq> None then (HttpError ''Failed to parse form'' 400, db)
      else
        case FormFile r of
          Inl err \<Rightarrow> (HttpError ''Failed to get CSV file'' 400, db)
        | Inr file \<Rightarrow>
            (case file of
               Inl err \<Rightarrow> (HttpError ''Failed to parse CSV file'' 400, db)
             | Inr records \<Rightarrow>
                 if length records = 0 then (HttpError ''CSV file is empty'' 400, db)
                 else
                   let startIdx = start_index records in
                   case import_rows tp startIdx (drop startIdx records) (db, 0, 0, []) of
                     (db', successCount, errorCount, errors) \<Rightarrow>
                       (ImportResult \<lparr>SuccessCount = successCount, ErrorCount = errorCount,
                                      Errors = errors,
                                      TotalRows = length records - startIdx\<rparr>, db')))"


section \<open>Properties\<close>

subsection \<open>The date parser\<close>

lemma try_formats_first:
  "i < length fs \<Longrightarrow> tp (fs ! i) s = Some d \<Longrightarrow> (\<forall>j<i. tp (fs ! j) s = None)
   \<Longrightarrow> try_formats tp fs s = Inr d"
proof (induction fs arbitrary: i)
  case Nil
  then show ?case by simp
next
  case (Cons f fs)
  show ?case
  proof (cases i)
    case 0
    with Cons.prems show ?thesis by simp
  next
    case (Suc k)
    from Cons.prems Suc have "tp f s = None" by auto
    moreover have "try_formats tp fs s = Inr d"
    proof (rule Cons.IH)
      show "k < length fs" using Cons.prems Suc by simp
      show "tp (fs ! k) s = Some d" using Cons.prems Suc by simp
      show "\<forall>j<k. tp (fs ! j) s = None"
      proof (intro allI impI)
        fix j assume "j < k"
        then have "Suc j < i" using Suc by simp
        with Cons.prems have "tp ((f # fs) ! Suc j) s = None" by blast
        then show "tp (fs ! j) s = None" by simp
      qed
    qed
    ultimately show ?thesis by simp
  qed
qed

lemma try_formats_none:
  "(\<forall>f\<in>set fs. tp f s = None)
   \<Longrightarrow> try_formats tp fs s = Inl (Errorf ''unrecognized date format'' None)"
  by (induction fs) auto

text \<open>
  Claim C1, as the code has it. An empty string is refused at once with the error
  "date is required". For every other string the layouts of the fixed list, which
  starts with ISO, the two US layouts, the two European ones and the two year-first
  ones, are tried in order: the result is the time read under the first layout that
  succeeds, and the error "unrecognized date format" when none does.
\<close>

theorem parseDate_first_layout:
  "parseDate tp '''' = Inl (Errorf ''date is required'' None)
   \<and> (s \<noteq> '''' \<and> i < length formats \<and> tp (formats ! i) s = Some d
        \<and> (\<forall>j<i. tp (formats ! j) s = None) \<longrightarrow> parseDate tp s = Inr d)
   \<and> (s \<noteq> '''' \<and> (\<forall>f\<in>set formats. tp f s = None)
        \<longrightarrow> parseDate tp s = Inl (Errorf ''unrecognized date format'' None))
   \<and> length formats = 25
   \<and> take 7 formats = [''2006-01-02'', ''01/02/2006'', ''1/2/2006'', ''02/01/2006'',
        ''2/1/2006'', ''2006/01/02'', ''2006/1/2'']"
proof (intro conjI impI)
  show "parseDate tp '''' = Inl (Errorf ''date is required'' None)"
    by (simp add: parseDate_def)
next
  assume "s \<noteq> '''' \<and> i < length formats \<and> tp (formats ! i) s = Some d
    \<and> (\<forall>j<i. tp (formats ! j) s = None)"
  then show "parseDate tp s = Inr d"
    using try_formats_first [of i formats tp s d] by (simp add: parseDate_def)
next
  assume "s \<noteq> '''' \<and> (\<forall>f\<in>set formats. tp f s = None)"
  then show "parseDate tp s = Inl (Errorf ''unrecognized date format'' None)"
    using try_formats_none [of formats tp s] by (simp add: parseDate_def)
next
  show "length formats = 25" by (simp add: formats_def)
next
  show "take 7 formats = [''2006-01-02'', ''01/02/2006'', ''1/2/2006'', ''02/01/2006'',
        ''2/1/2006'', ''2006/01/02'', ''2006/1/2'']"
    by (simp add: formats_def)
qed


text \<open>
  A run of C1's theorem: a \<open>time.Parse\<close> that reads \<open>03/04/2024\<close> under the US layout
  and under the European one; the US layout stands first in the list and wins. It reads
  "next week" under no layout.
\<close>

theorem parseDate_first_layout_witness:
  "parseDate
     (parse_table [((''01/02/2006'', ''03/04/2024''), 100), ((''02/01/2006'', ''03/04/2024''), 200)])
     ''03/04/2024'' = Inr 100
   \<and> parseDate
     (parse_table [((''01/02/2006'', ''03/04/2024''), 100), ((''02/01/2006'', ''03/04/2024''), 200)])
     ''next week'' = Inl (Errorf ''unrecognized date format'' None)"
proof -
  let ?tp = "parse_table
    [((''01/02/2006'', ''03/04/2024''), 100), ((''02/01/2006'', ''03/04/2024''), 200)]"
  have first: "''03/04/2024'' \<noteq> '''' \<and> 1 < length formats
    \<and> ?tp (formats ! 1) ''03/04/2024'' = Some 100
    \<and> (\<forall>j<1. ?tp (formats ! j) ''03/04/2024'' = None)"
    by (simp add: formats_def parse_table_def)
  have none: "''next week'' \<noteq> '''' \<and> (\<forall>f\<in>set formats. ?tp f ''next week'' = None)"
    by (simp add: formats_def parse_table_def)
  from parseDate_first_layout [of ?tp "''03/04/2024''" 1 100] first
  have a: "parseDate ?tp ''03/04/2024'' = Inr 100" by blast
  from parseDate_first_layout [of ?tp "''next week''"] none
  have b: "parseDate ?tp ''next week'' = Inl (Errorf ''unrecognized date format'' None)"
    by blast
  from a b show ?thesis by (rule conjI)
qed

text \<open>
  C1 as the spec states it fails on the empty string: no layout reads it (the loop over
  the layouts would end with "unrecognized date format"), yet \<open>parseDate\<close> answers
  "date is required".
\<close>

theorem parseDate_empty_counterexample:
  "try_formats (parse_table []) formats '''' = Inl (Errorf ''unrecognized date format'' None)
   \<and> parseDate (parse_table []) '''' = Inl (Errorf ''date is required'' None)
   \<and> parseDate (parse_table []) '''' \<noteq> Inl (Errorf ''unrecognized date format'' None)"
  by (simp add: parseDate_def formats_def parse_table_def)


subsection \<open>The store\<close>





lemma Create_ok:
  "\<not> closed db \<Longrightarrow>
   CreateJobApplication db job =
     (db\<lparr>table := table db @ [job\<lparr>ID := next_rowid db, CreatedAt := clock db (ticks db),
                                    UpdatedAt := clock db (ticks db)\<rparr>],
         sequence := next_rowid db, ticks := ticks db + 1\<rparr>,
      job\<lparr>ID := next_rowid db\<rparr>, None)"
  by (simp add: CreateJobApplication_def exec_insert_def Let_def)




lemma Delete_open:
  "\<not> closed db \<Longrightarrow>
   DeleteJobApplication db jid =
     (db\<lparr>table := filter (\<lambda>row. ID row \<noteq> jid) (table db)\<rparr>,
      if filter (\<lambda>row. ID row = jid) (table db) = [] then Some ErrJobNotFound else None)"
  by (simp add: DeleteJobApplication_def exec_delete_def)

lemma Delete_closed:
  "closed db \<Longrightarrow>
   DeleteJobApplication db jid =
     (db, Some (Errorf ''failed to delete job application: '' (Some ErrClosed)))"
  by (simp add: DeleteJobApplication_def exec_delete_def)

lemma absent_filter:
  "jid \<notin> ID ` set rows \<Longrightarrow>
   filter (\<lambda>row. ID row \<noteq> jid) rows = rows \<and> filter (\<lambda>row. ID row = jid) rows = []"
  by (induction rows) auto

lemma present_filter:
  "jid \<in> ID ` set rows \<Longrightarrow> filter (\<lambda>row. ID row = jid) rows \<noteq> []"
  by (induction rows) auto

text \<open>
  Claim C6. On an open connection deleting an identifier that no row has returns
  \<open>ErrJobNotFound\<close>; a delete of an absent identifier leaves the store as it was; an
  error of the delete is \<open>ErrJobNotFound\<close> (or wraps it) exactly when the connection
  was open and the identifier absent, so that every other failure is told apart from
  it by \<open>errors.Is\<close>; and the delete of an identifier that is present reports no error.
\<close>

theorem delete_not_found:
  "(\<not> closed db \<and> jid \<notin> ID ` set (table db)
      \<longrightarrow> DeleteJobApplication db jid = (db, Some ErrJobNotFound))
   \<and> (jid \<notin> ID ` set (table db) \<longrightarrow> fst (DeleteJobApplication db jid) = db)
   \<and> (\<forall>err. snd (DeleteJobApplication db jid) = Some err \<longrightarrow>
         (errors_Is err ErrJobNotFound \<longleftrightarrow> \<not> closed db \<and> jid \<notin> ID ` set (table db))
         \<and> (err = ErrJobNotFound \<longleftrightarrow> errors_Is err ErrJobNotFound))
   \<and> (\<not> closed db \<and> jid \<in> ID ` set (table db)
      \<longrightarrow> snd (DeleteJobApplication db jid) = None)"
proof (cases "closed db")
  case True
  then show ?thesis by (simp add: Delete_closed ErrClosed_def)
next
  case op: False
  show ?thesis
  proof (cases "jid \<in> ID ` set (table db)")
    case True
    with op show ?thesis using present_filter [of jid "table db"] by (simp add: Delete_open)
  next
    case False
    with op show ?thesis using absent_filter [of jid "table db"] by (simp add: Delete_open)
  qed
qed

text \<open>
  A run of C6's theorem: the identifiers 999 and 1 in a store whose only row has the
  identifier 1, and the error of a delete on a closed connection.
\<close>

theorem delete_not_found_witness:
  "DeleteJobApplication
     \<lparr>table = [\<lparr>ID = 1, DateApplied = 5, JobTitle = ''Eng'', Company = ''Acme'',
                Status = ''Applied'', JobURL = '''', Notes = '''', CreatedAt = 7, UpdatedAt = 7\<rparr>],
      sequence = 1, clock = (\<lambda>n. 7), ticks = 1, closed = False\<rparr> 999
   = (\<lparr>table = [\<lparr>ID = 1, DateApplied = 5, JobTitle = ''Eng'', Company = ''Acme'',
                Status = ''Applied'', JobURL = '''', Notes = '''', CreatedAt = 7, UpdatedAt = 7\<rparr>],
      sequence = 1, clock = (\<lambda>n. 7), ticks = 1, closed = False\<rparr>, Some ErrJobNotFound)
   \<and> snd (DeleteJobApplication
     \<lparr>table = [\<lparr>ID = 1, DateApplied = 5, JobTitle = ''Eng'', Company = ''Acme'',
                Status = ''Applied'', JobURL = '''', Notes = '''', CreatedAt = 7, UpdatedAt = 7\<rparr>],
      sequence = 1, clock = (\<lambda>n. 7), ticks = 1, closed = False\<rparr> 1) = None
   \<and> \<not> errors_Is (Errorf ''failed to delete job application: '' (Some ErrClosed))
         ErrJobNotFound"
proof -
  let ?db = "\<lparr>table = [\<lparr>ID = 1, DateApplied = 5, JobTitle = ''Eng'', Company = ''Acme'',
                Status = ''Applied'', JobURL = '''', Notes = '''', CreatedAt = 7, UpdatedAt = 7\<rparr>],
      sequence = 1, clock = (\<lambda>n. 7), ticks = 1, closed = False\<rparr>"
  let ?err = "Errorf ''failed to delete job application: '' (Some ErrClosed)"
  have absent: "\<not> closed ?db \<and> 999 \<notin> ID ` set (table ?db)" by simp
  have present: "\<not> closed ?db \<and> 1 \<in> ID ` set (table ?db)" by simp
  have failed: "snd (DeleteJobApplication (Close ?db) 999) = Some ?err"
    by (simp add: Close_def DeleteJobApplication_def exec_delete_def)
  have shut: "closed (Close ?db)" by (simp add: Close_def)
  from delete_not_found [of ?db 999] absent
  have a: "DeleteJobApplication ?db 999 = (?db, Some ErrJobNotFound)" by blast
  from delete_not_found [of ?db 1] present
  have b: "snd (DeleteJobApplication ?db 1) = None" by blast
  from delete_not_found [of "Close ?db" 999] failed shut
  have c: "\<not> errors_Is ?err ErrJobNotFound" by blast
  from a b c show ?thesis by (intro conjI)
qed











lemma fold_upd_map_of:
  "fold (\<lambda>(status, count) counts. counts(status \<mapsto> count)) ps m = m ++ map_of (rev ps)"
proof (induction ps arbitrary: m)
  case Nil
  then show ?case by simp
next
  case (Cons p ps)
  obtain k v where p: "p = (k, v)" by (cases p)
  have "fold (\<lambda>(status, count) counts. counts(status \<mapsto> count)) (p # ps) m
        = fold (\<lambda>(status, count) counts. counts(status \<mapsto> count)) ps (m(k \<mapsto> v))"
    by (simp add: p)
  also have "\<dots> = m(k \<mapsto> v) ++ map_of (rev ps)" by (rule Cons.IH)
  also have "m(k \<mapsto> v) = m ++ [k \<mapsto> v]" by simp
  also have "(m ++ [k \<mapsto> v]) ++ map_of (rev ps) = m ++ ([k \<mapsto> v] ++ map_of (rev ps))"
    by (rule map_add_assoc [symmetric])
  also have "[k \<mapsto> v] ++ map_of (rev ps) = map_of (rev (p # ps))"
    by (simp add: p map_of_append)
  finally show ?case .
qed

lemma set_insert_count: "set (insert_count a bs) = insert a (set bs)"
  by (induction bs) auto

lemma set_sort_counts: "set (foldr insert_count ps []) = set ps"
  by (induction ps) (simp_all add: set_insert_count)

lemma mset_insert_count: "mset (insert_count a bs) = add_mset a (mset bs)"
  by (induction bs) auto

lemma mset_sort_counts: "mset (foldr insert_count ps []) = mset ps"
  by (induction ps) (simp_all add: mset_insert_count)

lemma fst_sort_counts: "mset (map fst (foldr insert_count ps [])) = mset (map fst ps)"
  using mset_sort_counts [of ps] by (metis mset_map)

lemma distinct_sort_counts:
  "distinct (map fst ps) \<Longrightarrow> distinct (map fst (foldr insert_count ps []))"
  using fst_sort_counts [of ps] by (metis mset_eq_imp_distinct_iff)

lemma distinct_group: "distinct (map fst (group_by_status rows))"
  by (simp add: group_by_status_def comp_def)

lemma map_of_group:
  "map_of (group_by_status rows) status =
     (if status \<in> Status ` set rows
      then Some (length (filter (\<lambda>row. Status row = status) rows)) else None)"
proof -
  have "map_of (map (\<lambda>k. (k, f k)) ks) k = (if k \<in> set ks then Some (f k) else None)"
    for f :: "string \<Rightarrow> nat" and ks k
    by (induction ks) auto
  then show ?thesis by (simp add: group_by_status_def)
qed

lemma counts_eq:
  "\<not> closed db \<Longrightarrow> GetStatusCounts db = Inr (map_of (group_by_status (table db)))"
proof -
  assume op: "\<not> closed db"
  let ?g = "group_by_status (table db)"
  let ?s = "foldr insert_count ?g []"
  have d: "distinct (map fst (rev ?s))"
    using distinct_sort_counts [OF distinct_group, of "table db"] by (simp add: rev_map [symmetric])
  have "map_of (rev ?s) = map_of ?g"
    using d distinct_group [of "table db"] by (simp add: map_of_inject_set set_sort_counts)
  with op show ?thesis
    by (simp add: GetStatusCounts_def query_status_counts_def fold_upd_map_of)
qed

lemma count_list_Status:
  "count_list (map Status rows) status = length (filter (\<lambda>row. Status row = status) rows)"
  by (induction rows) auto

text \<open>
  Claim C8. On an open connection the status-count aggregation succeeds and assigns to
  each status the number of stored records that carry it (a status that no record
  carries has no entry, which reads as zero), and the counts of all statuses sum to the
  number of stored records.
\<close>

theorem status_counts:
  "(\<not> closed db \<longrightarrow> (\<exists>counts. GetStatusCounts db = Inr counts))
   \<and> (\<forall>counts. GetStatusCounts db = Inr counts \<longrightarrow>
         (\<forall>status. (case counts status of None \<Rightarrow> 0 | Some n \<Rightarrow> n)
                     = length (filter (\<lambda>row. Status row = status) (table db)))
         \<and> (\<forall>status. counts status \<noteq> Some 0)
         \<and> finite (dom counts)
         \<and> (\<Sum>status\<in>dom counts. the (counts status)) = length (table db))"
proof (intro conjI allI impI)
  assume "\<not> closed db"
  then show "\<exists>counts. GetStatusCounts db = Inr counts" by (simp add: counts_eq)
next
  fix counts
  assume got: "GetStatusCounts db = Inr counts"
  have op: "\<not> closed db"
  proof
    assume "closed db"
    with got show False by (simp add: GetStatusCounts_def query_status_counts_def)
  qed
  with got have counts: "counts = map_of (group_by_status (table db))"
    by (simp add: counts_eq)
  have absent: "status \<notin> Status ` set (table db)
      \<Longrightarrow> filter (\<lambda>row. Status row = status) (table db) = []" for status
    by (auto simp: filter_empty_conv)
  have present: "status \<in> Status ` set (table db)
      \<Longrightarrow> filter (\<lambda>row. Status row = status) (table db) \<noteq> []" for status
    by (auto simp: filter_empty_conv)
  show "(case counts status of None \<Rightarrow> 0 | Some n \<Rightarrow> n)
          = length (filter (\<lambda>row. Status row = status) (table db))" for status
    using absent [of status] by (simp add: counts map_of_group)
  show "counts status \<noteq> Some 0" for status
    using present [of status] by (simp add: counts map_of_group)
  have dom: "dom counts = set (map Status (table db))"
    by (auto simp: counts map_of_group dom_def)
  show "finite (dom counts)" by (simp add: dom)
  have "(\<Sum>status\<in>dom counts. the (counts status))
        = (\<Sum>status\<in>set (map Status (table db)). count_list (map Status (table db)) status)"
    unfolding dom by (rule sum.cong) (auto simp: counts map_of_group count_list_Status)
  also have "\<dots> = length (map Status (table db))"
    by (rule sum_count_set) simp_all
  finally show "(\<Sum>status\<in>dom counts. the (counts status)) = length (table db)" by simp
qed

text \<open>A run of C8's theorem: two records Applied and one Interview.\<close>

theorem status_counts_witness:
  "\<exists>counts. GetStatusCounts
      \<lparr>table =
         [\<lparr>ID = 1, DateApplied = 5, JobTitle = ''Software Engineer'', Company = ''Company A'',
           Status = ''Applied'', JobURL = '''', Notes = '''', CreatedAt = 7, UpdatedAt = 7\<rparr>,
          \<lparr>ID = 2, DateApplied = 9, JobTitle = ''Backend Developer'', Company = ''Company B'',
           Status = ''Applied'', JobURL = '''', Notes = '''', CreatedAt = 8, UpdatedAt = 8\<rparr>,
          \<lparr>ID = 3, DateApplied = 9, JobTitle = ''Full Stack Developer'', Company = ''Company C'',
           Status = ''Interview'', JobURL = '''', Notes = '''', CreatedAt = 9, UpdatedAt = 9\<rparr>],
       sequence = 3, clock = (\<lambda>n. 10), ticks = 3, closed = False\<rparr> = Inr counts
     \<and> counts ''Applied'' = Some 2 \<and> counts ''Interview'' = Some 1
     \<and> counts ''Offer'' = None
     \<and> (\<Sum>status\<in>dom counts. the (counts status)) = 3"
proof -
  let ?db = "\<lparr>table =
         [\<lparr>ID = 1, DateApplied = 5, JobTitle = ''Software Engineer'', Company = ''Company A'',
           Status = ''Applied'', JobURL = '''', Notes = '''', CreatedAt = 7, UpdatedAt = 7\<rparr>,
          \<lparr>ID = 2, DateApplied = 9, JobTitle = ''Backend Developer'', Company = ''Company B'',
           Status = ''Applied'', JobURL = '''', Notes = '''', CreatedAt = 8, UpdatedAt = 8\<rparr>,
          \<lparr>ID = 3, DateApplied = 9, JobTitle = ''Full Stack Developer'', Company = ''Company C'',
           Status = ''Interview'', JobURL = '''', Notes = '''', CreatedAt = 9, UpdatedAt = 9\<rparr>],
       sequence = 3, clock = (\<lambda>n. 10), ticks = 3, closed = False\<rparr>"
  have op: "\<not> closed ?db" by simp
  from status_counts [of ?db, THEN conjunct1, rule_format, OF op]
  obtain counts where counts: "GetStatusCounts ?db = Inr counts" ..
  note facts = status_counts [of ?db, THEN conjunct2, rule_format, OF counts]
  have each: "(case counts status of None \<Rightarrow> 0 | Some n \<Rightarrow> n)
                     = length (filter (\<lambda>row. Status row = status) (table ?db))" for status
    using facts by blast
  have nz: "counts status \<noteq> Some 0" for status
    using facts by blast
  have total: "(\<Sum>status\<in>dom counts. the (counts status)) = length (table ?db)"
    using facts by blast
  from each [of "''Applied''"] have a: "counts ''Applied'' = Some 2"
    by (simp split: option.splits)
  from each [of "''Interview''"] have b: "counts ''Interview'' = Some 1"
    by (simp split: option.splits)
  from each [of "''Offer''"] nz [of "''Offer''"] have c: "counts ''Offer'' = None"
    by (simp split: option.splits)
  from total have t: "(\<Sum>status\<in>dom counts. the (counts status)) = 3" by simp
  show ?thesis
    by (rule exI [of _ counts]) (intro conjI counts a b c t)
qed


subsection \<open>The CSV import\<close>








text \<open>When the CSV reader fails the handler answers 400 and imports nothing.\<close>

lemma ProcessCSVHandler_reader_error:
  "ProcessCSVHandler tp db
     \<lparr>Method = ''POST'', ParseFormErr = None, Form = [], FormFile = Inr (Inl err)\<rparr>
   = (HttpError ''Failed to parse CSV file'' 400, db)"
  by (simp add: ProcessCSVHandler_def)























subsection \<open>The header row\<close>















subsection \<open>Mandatory fields and the default status\<close>

text \<open>
  A record that \<open>parseCSVRecord\<close> accepts has a title, a company and a status that are
  not empty, and the status "Applied" when the row gives none.
\<close>

lemma parseCSVRecord_required_fields:
  "parseCSVRecord tp row = Inr job \<Longrightarrow>
   JobTitle job \<noteq> '''' \<and> Company job \<noteq> '''' \<and> Status job \<noteq> ''''
   \<and> (length row \<le> 3 \<or> TrimSpace (row ! 3) = '''' \<longrightarrow> Status job = ''Applied'')"
  by (auto simp: parseCSVRecord_def StatusApplied_def Let_def split: if_splits sum.splits)

text \<open>
  Claim C9 on the create form. A form posted with a date and with an empty title,
  company and status is stored as it stands: \<open>CreateJobHandler\<close> checks the date only,
  and the INSERT names the status column, so that the column's default "Applied" is
  never used.
\<close>

theorem create_form_stores_empty_fields:
  "CreateJobHandler (parse_table [((''2006-01-02'', ''2024-01-15''), 738900)])
     \<lparr>table = [], sequence = 0, clock = (\<lambda>n. 42), ticks = 0, closed = False\<rparr>
     \<lparr>Method = ''POST'', ParseFormErr = None,
      Form = [(''date_applied'', ''2024-01-15''), (''job_title'', ''''), (''company'', ''''),
              (''status'', '''')],
      FormFile = Inl (ErrDriver ''http: no such file'')\<rparr>
   = (HttpRedirect ''/'' 303,
      \<lparr>table = [\<lparr>ID = 1, DateApplied = 738900, JobTitle = '''', Company = '''', Status = '''',
                 JobURL = '''', Notes = '''', CreatedAt = 42, UpdatedAt = 42\<rparr>],
       sequence = 1, clock = (\<lambda>n. 42), ticks = 1, closed = False\<rparr>)"
  by (simp add: CreateJobHandler_def FormValue_def parse_table_def Create_ok next_rowid_def)

end
